theory Spec2Isabelle
  imports Main "HOL-Library.AList"
begin

section \<open>Python strings as used by the loader\<close>

text \<open>
  Strings are character lists. \<open>str.lower\<close> is modelled on ASCII text: the letters
  \<open>A\<close> to \<open>Z\<close> (codes 65 to 90) move to \<open>a\<close> to \<open>z\<close>, every other character stays.
  The literals that the loader compares with (\<open>cpu\<close> and the four model types) are ASCII.
\<close>

definition lower_char :: "char \<Rightarrow> char" where
  "lower_char c =
     (let n = (of_char c :: nat)
      in if 65 \<le> n \<and> n \<le> 90 then char_of (n + 32) else c)"

definition py_lower :: "string \<Rightarrow> string" where
  "py_lower s = map lower_char s"

text \<open>\<open>s.endswith(suf)\<close>: the last \<open>len(suf)\<close> characters of \<open>s\<close> are \<open>suf\<close>.\<close>

definition endswith :: "string \<Rightarrow> string \<Rightarrow> bool" where
  "endswith s suf =
     (length suf \<le> length s \<and> drop (length s - length suf) s = suf)"

text \<open>
  \<open>s.split(sep)\<close> for a one-character separator: a left-to-right scan that closes the
  current segment at every separator; the result always has at least one segment.
\<close>

fun split_scan :: "char \<Rightarrow> string \<Rightarrow> string \<Rightarrow> string list" where
  "split_scan sep cur [] = [cur]"
| "split_scan sep cur (c # cs) =
     (if c = sep then cur # split_scan sep [] cs else split_scan sep (cur @ [c]) cs)"

definition py_split :: "char \<Rightarrow> string \<Rightarrow> string list" where
  "py_split sep s = split_scan sep [] s"

text \<open>\<open>sep.join(parts)\<close>.\<close>

fun py_join :: "string \<Rightarrow> string list \<Rightarrow> string" where
  "py_join sep [] = []"
| "py_join sep [x] = x"
| "py_join sep (x # y # ys) = x @ sep @ py_join sep (y # ys)"

text \<open>
  \<open>".".join(s.split(".")[:-1])\<close>, the value that \<open>load_gptq_model\<close> assigns to
  \<open>self.model_safetensors\<close>; \<open>split_string[:-1]\<close> is \<open>butlast\<close>.
\<close>

definition drop_last_segment :: "string \<Rightarrow> string" where
  "drop_last_segment s =
     (let split_string = py_split CHR ''.'' s
      in py_join ''.'' (butlast split_string))"

section \<open>Values, exceptions and the external runtime\<close>

text \<open>
  Python values that the loader builds or passes on. Objects of the external libraries
  (configurations, tokenizers, models, pipelines) are opaque: \<open>PObj\<close> with an
  identifier. A float literal is kept as written: \<open>PFloat m e\<close> stands for the decimal
  \<open>m / 10^e\<close>, so \<open>0.95\<close> is \<open>PFloat 95 2\<close>. \<open>TorchFloat16\<close> is \<open>torch.float16\<close>.
\<close>

datatype pyval =
    PNone
  | PBool bool
  | PInt int
  | PFloat int nat
  | PStr string
  | TorchFloat16
  | PObj nat
  | PTuple "pyval list"

type_synonym kwargs = "(string \<times> pyval) list"

text \<open>\<open>isinstance(v, tuple)\<close>.\<close>

fun is_tuple :: "pyval \<Rightarrow> bool" where
  "is_tuple (PTuple vs) = True"
| "is_tuple v = False"

text \<open>
  Exceptions, each with its message (\<open>str(e)\<close>). \<open>OtherException\<close> carries the class name
  of any exception of the libraries that the loader never names.
\<close>

datatype exn =
    OutOfMemoryError string
  | NotImplementedError string
  | AttributeError string
  | OtherException string string

text \<open>
  A call into an external library: the callee, the positional arguments and the keyword
  arguments in the order they are passed (a method call passes its receiver first). The
  runtime answers a call with a value or with an exception. No method of the loader makes
  the same call twice in one run, so a function from calls to answers can stand for any
  behaviour of the libraries during a run.
\<close>

datatype call = Call string "pyval list" kwargs

type_synonym runtime = "call \<Rightarrow> exn + pyval"

datatype level = INFO | WARNING | ERROR

text \<open>What a run does that is visible from outside: log records and external calls, in order.\<close>

datatype event = Log level string | Invoke call

text \<open>
  How a method ends: it returns, it raises an exception, or it leaves through
  \<open>sys.exit\<close> with a status. \<open>sys.exit\<close> raises \<open>SystemExit\<close>, which no \<open>except\<close> clause of
  the module catches and which ends the process with that status; it is kept apart from the
  exceptions.
\<close>

datatype 'a outcome = Return 'a | Raise exn | Exit int

section \<open>The loader object\<close>

record ModelLoader =
  device_type :: string
  model_type :: string
  model_repository :: string
  model_safetensors :: string
  use_triton :: bool

text \<open>
  The constants imported from the package \<open>localGPT\<close>; their values are not part of the
  module, so they are a parameter.
\<close>

record defaults =
  DEFAULT_DEVICE_TYPE :: string
  DEFAULT_MODEL_TYPE :: string
  DEFAULT_MODEL_REPOSITORY :: string
  DEFAULT_MODEL_SAFETENSORS :: string

text \<open>
  A method runs on the object \<open>self\<close> and the events so far, and yields an outcome with
  the object and the events after it.
\<close>

type_synonym state = "ModelLoader \<times> event list"

type_synonym 'a prog = "state \<Rightarrow> 'a outcome \<times> state"

definition ret :: "'a \<Rightarrow> 'a prog" where
  "ret x = (\<lambda>s. (Return x, s))"

definition raise :: "exn \<Rightarrow> 'a prog" where
  "raise e = (\<lambda>s. (Raise e, s))"

definition sys_exit :: "int \<Rightarrow> 'a prog" where
  "sys_exit n = (\<lambda>s. (Exit n, s))"

text \<open>Sequencing: the rest runs only when the first part returns.\<close>

definition and_then :: "'a prog \<Rightarrow> ('a \<Rightarrow> 'b prog) \<Rightarrow> 'b prog" where
  "and_then m f =
     (\<lambda>s. case m s of
            (Return x, s') \<Rightarrow> f x s'
          | (Raise e, s') \<Rightarrow> (Raise e, s')
          | (Exit n, s') \<Rightarrow> (Exit n, s'))"

text \<open>
  \<open>try: m except ...: h\<close>: the handler answers the exceptions it catches with a
  program and leaves the others alone.
\<close>

definition try_except :: "'a prog \<Rightarrow> (exn \<Rightarrow> 'a prog option) \<Rightarrow> 'a prog" where
  "try_except m h =
     (\<lambda>s. case m s of
            (Raise e, s') \<Rightarrow> (case h e of Some k \<Rightarrow> k s' | None \<Rightarrow> (Raise e, s'))
          | r \<Rightarrow> r)"

definition get_self :: "ModelLoader prog" where
  "get_self = (\<lambda>(self, tr). (Return self, (self, tr)))"

definition set_self :: "(ModelLoader \<Rightarrow> ModelLoader) \<Rightarrow> unit prog" where
  "set_self f = (\<lambda>(self, tr). (Return (), (f self, tr)))"

definition logging :: "level \<Rightarrow> string \<Rightarrow> unit prog" where
  "logging lvl msg = (\<lambda>(self, tr). (Return (), (self, tr @ [Log lvl msg])))"

definition external :: "runtime \<Rightarrow> call \<Rightarrow> pyval prog" where
  "external rt c =
     (\<lambda>(self, tr).
        (case rt c of Inl e \<Rightarrow> Raise e | Inr v \<Rightarrow> Return v, (self, tr @ [Invoke c])))"

text \<open>\<open>v or d\<close> for an optional string (\<open>None\<close> and the empty string are false) and for an
  optional flag.\<close>

definition or_str :: "string option \<Rightarrow> string \<Rightarrow> string" where
  "or_str v d = (case v of None \<Rightarrow> d | Some s \<Rightarrow> if s = [] then d else s)"

definition or_False :: "bool option \<Rightarrow> bool" where
  "or_False v = (case v of None \<Rightarrow> False | Some b \<Rightarrow> if b then b else False)"

text \<open>\<open>ModelLoader.__init__\<close>: five attribute assignments.\<close>

definition ModelLoader_init ::
  "defaults \<Rightarrow> string option \<Rightarrow> string option \<Rightarrow> string option \<Rightarrow> string option
     \<Rightarrow> bool option \<Rightarrow> unit prog" where
  "ModelLoader_init D device_type_arg model_type_arg model_repository_arg
       model_safetensors_arg use_triton_arg =
     and_then (set_self (\<lambda>self.
        self\<lparr>device_type := py_lower (or_str device_type_arg (DEFAULT_DEVICE_TYPE D))\<rparr>)) (\<lambda>_.
     and_then (set_self (\<lambda>self.
        self\<lparr>model_type := py_lower (or_str model_type_arg (DEFAULT_MODEL_TYPE D))\<rparr>)) (\<lambda>_.
     and_then (set_self (\<lambda>self.
        self\<lparr>model_repository := or_str model_repository_arg (DEFAULT_MODEL_REPOSITORY D)\<rparr>)) (\<lambda>_.
     and_then (set_self (\<lambda>self.
        self\<lparr>model_safetensors := or_str model_safetensors_arg (DEFAULT_MODEL_SAFETENSORS D)\<rparr>)) (\<lambda>_.
     set_self (\<lambda>self. self\<lparr>use_triton := or_False use_triton_arg\<rparr>)))))"

text \<open>
  The keyword dictionary that \<open>load_huggingface_model\<close> builds: the literal, then the two
  entries added when the device is not the CPU.
\<close>

definition huggingface_kwargs :: "ModelLoader \<Rightarrow> kwargs" where
  "huggingface_kwargs self =
     (let kwargs = [(''low_cpu_mem_usage'', PBool True),
                    (''resume_download'', PBool True),
                    (''trust_remote_code'', PBool False)]
      in if device_type self \<noteq> ''cpu''
         then AList.update ''torch_dtype'' TorchFloat16
                (AList.update ''device_map'' (PStr (device_type self)) kwargs)
         else kwargs)"

text \<open>\<open>load_huggingface_model\<close>.\<close>

definition load_huggingface_model :: "runtime \<Rightarrow> (pyval \<times> pyval) prog" where
  "load_huggingface_model rt =
     and_then (logging INFO ''Using AutoModelForCausalLM for full models'') (\<lambda>_.
     and_then get_self (\<lambda>self.
     and_then (external rt
        (Call ''AutoConfig.from_pretrained'' [PStr (model_repository self)] [])) (\<lambda>config.
     and_then (logging INFO (''Configuration loaded for '' @ model_repository self)) (\<lambda>_.
     and_then (external rt
        (Call ''AutoTokenizer.from_pretrained'' [PStr (model_repository self)] [])) (\<lambda>tokenizer.
     and_then (logging INFO (''Tokenizer loaded for '' @ model_repository self)) (\<lambda>_.
     and_then (try_except
        (external rt
           (Call ''AutoModelForCausalLM.from_pretrained'' [PStr (model_repository self)]
              ((''config'', config) # huggingface_kwargs self)))
        (\<lambda>e. case e of
               OutOfMemoryError msg \<Rightarrow> Some (
                 and_then (logging ERROR
                    ''Encountered CUDA out of memory error while loading the model.'') (\<lambda>_.
                 and_then (logging ERROR msg) (\<lambda>_.
                 sys_exit 1)))
             | _ \<Rightarrow> None)) (\<lambda>model.
     and_then (logging INFO (''Model loaded for '' @ model_repository self)) (\<lambda>_.
     and_then (if \<not> is_tuple model
               then and_then (external rt (Call ''tie_weights'' [model] [])) (\<lambda>_.
                    logging WARNING
                      ''Model Weights Tied: Effectiveness depends on the specific type of model.'')
               else ret ()) (\<lambda>_.
     ret (model, tokenizer))))))))))"

text \<open>\<open>load_huggingface_llama_model\<close>.\<close>

definition load_huggingface_llama_model :: "runtime \<Rightarrow> (pyval \<times> pyval) prog" where
  "load_huggingface_llama_model rt =
     and_then (logging INFO ''Using LlamaTokenizer'') (\<lambda>_.
     and_then get_self (\<lambda>self.
     and_then (external rt
        (Call ''LlamaTokenizer.from_pretrained'' [PStr (model_repository self)] [])) (\<lambda>tokenizer.
     and_then (logging INFO (''Tokenizer loaded for '' @ model_repository self)) (\<lambda>_.
     and_then (external rt
        (Call ''LlamaForCausalLM.from_pretrained'' [PStr (model_repository self)] [])) (\<lambda>model.
     and_then (logging INFO (''Model loaded for '' @ model_repository self)) (\<lambda>_.
     ret (model, tokenizer)))))))"

text \<open>\<open>load_ggml_model\<close>: the body is \<open>pass\<close>, so the method returns \<open>None\<close>.\<close>

definition load_ggml_model :: "pyval prog" where
  "load_ggml_model = ret PNone"

text \<open>
  The first step of \<open>load_gptq_model\<close>: the in-place rewrite of
  \<open>self.model_safetensors\<close> and its log record.
\<close>

definition normalize_safetensors :: "unit prog" where
  "normalize_safetensors =
     and_then get_self (\<lambda>self0.
     if endswith (model_safetensors self0) ''.safetensors''
     then and_then (set_self (\<lambda>self.
            self\<lparr>model_safetensors := drop_last_segment (model_safetensors self)\<rparr>)) (\<lambda>_.
          and_then get_self (\<lambda>self.
          logging INFO (''Stripped '' @ model_safetensors self @ ''. Moving on.'')))
     else ret ())"

text \<open>
  The keyword dictionary that \<open>load_gptq_model\<close> builds: the literal, then the three
  entries added when the device is not the CPU.
\<close>

definition gptq_kwargs :: "ModelLoader \<Rightarrow> kwargs" where
  "gptq_kwargs self =
     (let kwargs = [(''low_cpu_mem_usage'', PBool True),
                    (''resume_download'', PBool True),
                    (''trust_remote_code'', PBool False),
                    (''use_safetensors'', PBool True),
                    (''device_map'', PStr ''auto''),
                    (''model_safetensors'', PStr (model_safetensors self))]
      in if device_type self \<noteq> ''cpu''
         then AList.update ''device'' (PStr (device_type self @ '':0''))
                (AList.update ''use_triton'' (PBool (use_triton self))
                   (AList.update ''use_cuda_fp16'' (PBool True) kwargs))
         else kwargs)"

text \<open>\<open>load_gptq_model\<close>.\<close>

definition load_gptq_model :: "runtime \<Rightarrow> (pyval \<times> pyval) prog" where
  "load_gptq_model rt =
     and_then (logging INFO ''Using AutoGPTQForCausalLM for quantized models'') (\<lambda>_.
     and_then (logging WARNING ''GGML models may supersede GPTQ models in future releases'') (\<lambda>_.
     and_then normalize_safetensors (\<lambda>_.
     and_then get_self (\<lambda>self.
     and_then (external rt
        (Call ''AutoTokenizer.from_pretrained'' [PStr (model_repository self)]
           [(''use_fast'', PBool True)])) (\<lambda>tokenizer.
     and_then (logging INFO (''Tokenizer loaded for '' @ model_repository self)) (\<lambda>_.
     and_then (external rt
        (Call ''AutoGPTQForCausalLM.from_quantized'' [PStr (model_repository self)]
           (gptq_kwargs self))) (\<lambda>model.
     and_then (logging INFO (''Model loaded for '' @ model_repository self)) (\<lambda>_.
     ret (model, tokenizer)))))))))"

text \<open>\<open>create_pipeline\<close> (a static method).\<close>

definition create_pipeline :: "runtime \<Rightarrow> pyval \<Rightarrow> pyval \<Rightarrow> pyval \<Rightarrow> pyval prog" where
  "create_pipeline rt model tokenizer generation_config =
     and_then (external rt
        (Call ''pipeline'' [PStr ''text-generation'']
           [(''model'', model),
            (''tokenizer'', tokenizer),
            (''max_length'', PInt 512),
            (''temperature'', PInt 0),
            (''top_p'', PFloat 95 2),
            (''repetition_penalty'', PFloat 115 2),
            (''generation_config'', generation_config)])) (\<lambda>pipe.
     external rt (Call ''HuggingFacePipeline'' [] [(''pipeline'', pipe)]))"

text \<open>The message of the last branch of \<open>load_model\<close>, the six literals in source order.\<close>

definition unsupported_message :: string where
  "unsupported_message =
     ''Unsupported model type given. '' @
     ''Expected one of: '' @
     ''huggingface, '' @
     ''huggingface-llama, '' @
     ''ggml, '' @
     ''gptq''"

text \<open>The strategy selection of \<open>load_model\<close>: the \<open>if\<close>/\<open>elif\<close> chain.\<close>

definition dispatch :: "runtime \<Rightarrow> ModelLoader \<Rightarrow> (pyval \<times> pyval) prog" where
  "dispatch rt self =
     (if py_lower (model_type self) = ''huggingface'' then load_huggingface_model rt
      else if py_lower (model_type self) = ''huggingface-llama'' then load_huggingface_llama_model rt
      else if py_lower (model_type self) = ''gptq'' then load_gptq_model rt
      else if py_lower (model_type self) = ''ggml''
        then raise (NotImplementedError ''GGML support is in research and development'')
      else raise (AttributeError unsupported_message))"

text \<open>\<open>load_model\<close>.\<close>

definition load_model :: "runtime \<Rightarrow> pyval prog" where
  "load_model rt =
     and_then get_self (\<lambda>self0.
     and_then (dispatch rt self0) (\<lambda>(model, tokenizer).
     and_then get_self (\<lambda>self.
     and_then (external rt
        (Call ''GenerationConfig.from_pretrained'' [PStr (model_repository self)] [])) (\<lambda>generation_config.
     and_then (create_pipeline rt model tokenizer generation_config) (\<lambda>local_llm.
     and_then (logging INFO ''Local LLM Loaded'') (\<lambda>_.
     ret local_llm))))))"

section \<open>Facts about splitting and joining\<close>

lemma endswith_append: "endswith (p @ suf) suf"
  by (simp add: endswith_def)

lemma endswith_iff: "endswith s suf \<longleftrightarrow> (\<exists>p. s = p @ suf)"
proof
  assume "endswith s suf"
  then have "s = take (length s - length suf) s @ suf"
    by (metis append_take_drop_id endswith_def)
  then show "\<exists>p. s = p @ suf" ..
next
  assume "\<exists>p. s = p @ suf"
  then show "endswith s suf" by (auto simp: endswith_append)
qed

lemma split_scan_nonempty: "split_scan sep cur s \<noteq> []"
  by (induction s arbitrary: cur) auto

lemma py_join_Cons: "xs \<noteq> [] \<Longrightarrow> py_join sep (x # xs) = x @ sep @ py_join sep xs"
  by (cases xs) simp_all

lemma join_split_scan: "py_join [sep] (split_scan sep cur s) = cur @ s"
proof (induction s arbitrary: cur)
  case Nil
  show ?case by simp
next
  case (Cons c cs)
  show ?case
  proof (cases "c = sep")
    case True
    then show ?thesis
      using Cons.IH [of "[]"] by (simp add: py_join_Cons split_scan_nonempty)
  next
    case False
    then show ?thesis
      using Cons.IH [of "cur @ [c]"] by simp
  qed
qed

lemma split_scan_no_sep: "sep \<notin> set t \<Longrightarrow> split_scan sep cur t = [cur @ t]"
  by (induction t arbitrary: cur) auto

lemma split_scan_append:
  "split_scan sep cur (s @ sep # t) = split_scan sep cur s @ split_scan sep [] t"
  by (induction s arbitrary: cur) auto

lemma split_last_segment:
  "sep \<notin> set t \<Longrightarrow> butlast (py_split sep (s @ sep # t)) = py_split sep s"
  by (simp add: py_split_def split_scan_append split_scan_no_sep)

lemma join_split: "py_join [sep] (py_split sep s) = s"
  by (simp add: py_split_def join_split_scan)

lemma drop_last_segment_suffix: "drop_last_segment (p @ ''.safetensors'') = p"
proof -
  have "p @ ''.safetensors'' = p @ CHR ''.'' # ''safetensors''" by simp
  then have "butlast (py_split CHR ''.'' (p @ ''.safetensors'')) = py_split CHR ''.'' p"
    using split_last_segment [of "CHR ''.''" "''safetensors''" p] by simp
  then show ?thesis
    using join_split [of "CHR ''.''" p] by (simp add: drop_last_segment_def)
qed

section \<open>Facts about the effect combinators\<close>

lemma ret_apply: "ret x s = (Return x, s)"
  by (simp add: ret_def)

lemma set_self_apply: "set_self g (self, tr) = (Return (), (g self, tr))"
  by (simp add: set_self_def)

lemma logging_apply: "logging l m (self, tr) = (Return (), (self, tr @ [Log l m]))"
  by (simp add: logging_def)

lemma external_apply:
  "external rt c (self, tr) =
     (case rt c of Inl e \<Rightarrow> Raise e | Inr v \<Rightarrow> Return v, (self, tr @ [Invoke c]))"
  by (simp add: external_def)

lemma and_then_ret: "and_then (ret x) f s = f x s"
  by (simp add: and_then_def ret_def)

lemma and_then_raise: "and_then (raise e) f s = (Raise e, s)"
  by (simp add: and_then_def raise_def)

lemma and_then_sys_exit: "and_then (sys_exit n) f s = (Exit n, s)"
  by (simp add: and_then_def sys_exit_def)

lemma and_then_get_self: "and_then get_self f (self, tr) = f self (self, tr)"
  by (simp add: and_then_def get_self_def)

lemma and_then_set_self: "and_then (set_self g) f (self, tr) = f () (g self, tr)"
  by (simp add: and_then_def set_self_def)

lemma and_then_logging: "and_then (logging l m) f (self, tr) = f () (self, tr @ [Log l m])"
  by (simp add: and_then_def logging_def)

lemma and_then_external:
  "and_then (external rt c) f (self, tr) =
     (case rt c of
        Inl e \<Rightarrow> (Raise e, (self, tr @ [Invoke c]))
      | Inr v \<Rightarrow> f v (self, tr @ [Invoke c]))"
  by (simp add: and_then_def external_def split: sum.splits)

lemma and_then_assoc: "and_then (and_then m g) f = and_then m (\<lambda>x. and_then (g x) f)"
  by (rule ext) (simp add: and_then_def split: prod.splits outcome.splits)

lemma and_then_try_external:
  "and_then (try_except (external rt c) h) f (self, tr) =
     (case rt c of
        Inl e \<Rightarrow> (case h e of
                    Some k \<Rightarrow> and_then k f (self, tr @ [Invoke c])
                  | None \<Rightarrow> (Raise e, (self, tr @ [Invoke c])))
      | Inr v \<Rightarrow> f v (self, tr @ [Invoke c]))"
  by (simp add: and_then_def try_except_def external_def split: sum.splits option.splits)

lemmas run_simps =
  ret_apply set_self_apply logging_apply external_apply
  and_then_ret and_then_raise and_then_sys_exit and_then_get_self and_then_set_self
  and_then_logging and_then_external and_then_assoc and_then_try_external

lemma lower_char_idem: "lower_char (lower_char c) = lower_char c"
  by (simp add: lower_char_def Let_def)

lemma py_lower_idem: "py_lower (py_lower s) = py_lower s"
  by (simp add: py_lower_def lower_char_idem)

lemma init_result:
  "ModelLoader_init D dt mt repo st ut (self, tr) =
     (Return (),
      (self\<lparr>device_type := py_lower (or_str dt (DEFAULT_DEVICE_TYPE D)),
            model_type := py_lower (or_str mt (DEFAULT_MODEL_TYPE D)),
            model_repository := or_str repo (DEFAULT_MODEL_REPOSITORY D),
            model_safetensors := or_str st (DEFAULT_MODEL_SAFETENSORS D),
            use_triton := or_False ut\<rparr>, tr))"
  by (simp add: ModelLoader_init_def run_simps)

section \<open>What each method does to the object\<close>

lemma huggingface_self:
  "fst (snd (load_huggingface_model rt (self, tr))) = self"
  by (simp add: load_huggingface_model_def run_simps split: sum.splits exn.splits)

lemma llama_self:
  "fst (snd (load_huggingface_llama_model rt (self, tr))) = self"
  by (simp add: load_huggingface_llama_model_def run_simps split: sum.splits)

lemma normalize_result:
  "normalize_safetensors (self, tr) =
     (if endswith (model_safetensors self) ''.safetensors''
      then (Return (),
            (self\<lparr>model_safetensors := drop_last_segment (model_safetensors self)\<rparr>,
             tr @ [Log INFO (''Stripped '' @ drop_last_segment (model_safetensors self)
                              @ ''. Moving on.'')]))
      else (Return (), (self, tr)))"
  by (simp add: normalize_safetensors_def run_simps)

lemma gptq_self:
  "fst (snd (load_gptq_model rt (self, tr))) =
     (if endswith (model_safetensors self) ''.safetensors''
      then self\<lparr>model_safetensors := drop_last_segment (model_safetensors self)\<rparr>
      else self)"
  by (simp add: load_gptq_model_def and_then_def [of normalize_safetensors] normalize_result
      run_simps split: sum.splits)

section \<open>The keyword dictionaries and the dispatch\<close>

lemma huggingface_kwargs_cpu:
  "device_type self = ''cpu'' \<Longrightarrow>
     huggingface_kwargs self =
       [(''low_cpu_mem_usage'', PBool True),
        (''resume_download'', PBool True),
        (''trust_remote_code'', PBool False)]"
  by (simp add: huggingface_kwargs_def)

lemma huggingface_kwargs_device:
  "device_type self \<noteq> ''cpu'' \<Longrightarrow>
     huggingface_kwargs self =
       [(''low_cpu_mem_usage'', PBool True),
        (''resume_download'', PBool True),
        (''trust_remote_code'', PBool False),
        (''device_map'', PStr (device_type self)),
        (''torch_dtype'', TorchFloat16)]"
  by (simp add: huggingface_kwargs_def)

lemma gptq_kwargs_cpu:
  "device_type self = ''cpu'' \<Longrightarrow>
     gptq_kwargs self =
       [(''low_cpu_mem_usage'', PBool True),
        (''resume_download'', PBool True),
        (''trust_remote_code'', PBool False),
        (''use_safetensors'', PBool True),
        (''device_map'', PStr ''auto''),
        (''model_safetensors'', PStr (model_safetensors self))]"
  by (simp add: gptq_kwargs_def)

lemma gptq_kwargs_device:
  "device_type self \<noteq> ''cpu'' \<Longrightarrow>
     gptq_kwargs self =
       [(''low_cpu_mem_usage'', PBool True),
        (''resume_download'', PBool True),
        (''trust_remote_code'', PBool False),
        (''use_safetensors'', PBool True),
        (''device_map'', PStr ''auto''),
        (''model_safetensors'', PStr (model_safetensors self)),
        (''use_cuda_fp16'', PBool True),
        (''use_triton'', PBool (use_triton self)),
        (''device'', PStr (device_type self @ '':0''))]"
  by (simp add: gptq_kwargs_def)

lemma create_pipeline_self:
  "fst (snd (create_pipeline rt model tokenizer generation_config (self, tr))) = self"
  by (simp add: create_pipeline_def run_simps split: sum.splits)

lemma load_model_ggml:
  "py_lower (model_type self) = ''ggml'' \<Longrightarrow>
     load_model rt (self, tr) =
       (Raise (NotImplementedError ''GGML support is in research and development''),
        (self, tr))"
  by (simp add: load_model_def dispatch_def run_simps)

lemma load_model_run:
  "load_model rt (self, tr) =
     (case dispatch rt self (self, tr) of
        (Return (model, tokenizer), (self', tr')) \<Rightarrow>
          (case rt (Call ''GenerationConfig.from_pretrained'' [PStr (model_repository self')] []) of
             Inl e \<Rightarrow>
               (Raise e, (self', tr' @
                  [Invoke (Call ''GenerationConfig.from_pretrained''
                     [PStr (model_repository self')] [])]))
           | Inr generation_config \<Rightarrow>
               and_then (create_pipeline rt model tokenizer generation_config) (\<lambda>local_llm.
               and_then (logging INFO ''Local LLM Loaded'') (\<lambda>_. ret local_llm))
                 (self', tr' @
                    [Invoke (Call ''GenerationConfig.from_pretrained''
                       [PStr (model_repository self')] [])]))
      | (Raise e, s') \<Rightarrow> (Raise e, s')
      | (Exit n, s') \<Rightarrow> (Exit n, s'))"
  by (simp add: load_model_def and_then_get_self and_then_def [of "dispatch rt self"]
      and_then_external split: prod.splits outcome.splits sum.splits)

lemma dispatch_self:
  "fst (snd (dispatch rt self (self, tr))) =
     (if py_lower (model_type self) = ''gptq''
         \<and> endswith (model_safetensors self) ''.safetensors''
      then self\<lparr>model_safetensors := drop_last_segment (model_safetensors self)\<rparr>
      else self)"
  by (simp add: dispatch_def huggingface_self llama_self gptq_self raise_def)

lemma load_model_self:
  "fst (snd (load_model rt (self, tr))) = fst (snd (dispatch rt self (self, tr)))"
  by (simp add: load_model_run create_pipeline_def run_simps
      split: prod.splits outcome.splits sum.splits)

section \<open>Claims\<close>

text \<open>
  C1: when the lower-cased \<open>model_type\<close> is none of \<open>huggingface\<close>,
  \<open>huggingface-llama\<close>, \<open>gptq\<close>, \<open>ggml\<close>, \<open>load_model\<close> raises \<open>AttributeError\<close>
  (the unsupported-configuration failure) with the object and the event list untouched, so
  no strategy has run; and the message is the fixed prefix followed by a comma-separated
  list whose entries are exactly those four values, each once.
\<close>

theorem C1_unsupported:
  assumes "py_lower (model_type self) \<notin> {''huggingface'', ''huggingface-llama'', ''gptq'', ''ggml''}"
  shows "load_model rt (self, tr) = (Raise (AttributeError unsupported_message), (self, tr))
    \<and> unsupported_message =
        ''Unsupported model type given. Expected one of: '' @
        py_join '', '' [''huggingface'', ''huggingface-llama'', ''ggml'', ''gptq'']
    \<and> set [''huggingface'', ''huggingface-llama'', ''ggml'', ''gptq''] =
        {''huggingface'', ''huggingface-llama'', ''gptq'', ''ggml''}
    \<and> distinct [''huggingface'', ''huggingface-llama'', ''ggml'', ''gptq'']"
proof -
  have "load_model rt (self, tr) = (Raise (AttributeError unsupported_message), (self, tr))"
    using assms by (simp add: load_model_def dispatch_def run_simps)
  moreover have "unsupported_message =
        ''Unsupported model type given. Expected one of: '' @
        py_join '', '' [''huggingface'', ''huggingface-llama'', ''ggml'', ''gptq'']"
    by (simp add: unsupported_message_def)
  moreover have "set [''huggingface'', ''huggingface-llama'', ''ggml'', ''gptq''] =
        {''huggingface'', ''huggingface-llama'', ''gptq'', ''ggml''}"
    by auto
  moreover have "distinct [''huggingface'', ''huggingface-llama'', ''ggml'', ''gptq'']"
    by simp
  ultimately show ?thesis by blast
qed

theorem C1_unsupported_witness:
  "(let self = \<lparr>device_type = ''cpu'', model_type = ''Unknown-Value'',
                 model_repository = ''repo'', model_safetensors = ''weights'',
                 use_triton = False\<rparr>
    in py_lower (model_type self) \<notin> {''huggingface'', ''huggingface-llama'', ''gptq'', ''ggml''}
       \<and> load_model (\<lambda>c. Inr (PObj 0)) (self, []) =
           (Raise (AttributeError
              ''Unsupported model type given. Expected one of: huggingface, huggingface-llama, ggml, gptq''),
            (self, [])))"
proof -
  have l: "py_lower ''Unknown-Value'' = ''unknown-value''" by code_simp
  show ?thesis
    using C1_unsupported [of "\<lparr>device_type = ''cpu'', model_type = ''Unknown-Value'',
                 model_repository = ''repo'', model_safetensors = ''weights'',
                 use_triton = False\<rparr>" "\<lambda>c. Inr (PObj 0)" "[]"]
    by (simp add: l unsupported_message_def)
qed

text \<open>
  C2: in the full-model strategy, when the configuration and the tokenizer have loaded and
  the model loader raises an out-of-memory error, the strategy logs two error records (the
  fixed line and the error's message) and the process exits with status 1. Run through
  \<open>load_model\<close> with \<open>model_type\<close> \<open>huggingface\<close>, the outcome is that exit: the
  caller gets neither an exception nor a value.
\<close>

theorem C2_out_of_memory:
  assumes cfg: "rt (Call ''AutoConfig.from_pretrained'' [PStr (model_repository self)] []) = Inr config"
    and tok: "rt (Call ''AutoTokenizer.from_pretrained'' [PStr (model_repository self)] []) = Inr tokenizer"
    and oom: "rt (Call ''AutoModelForCausalLM.from_pretrained'' [PStr (model_repository self)]
                ((''config'', config) # huggingface_kwargs self)) = Inl (OutOfMemoryError msg)"
  shows "load_huggingface_model rt (self, tr) =
      (Exit 1, (self, tr @
         [Log INFO ''Using AutoModelForCausalLM for full models'',
          Invoke (Call ''AutoConfig.from_pretrained'' [PStr (model_repository self)] []),
          Log INFO (''Configuration loaded for '' @ model_repository self),
          Invoke (Call ''AutoTokenizer.from_pretrained'' [PStr (model_repository self)] []),
          Log INFO (''Tokenizer loaded for '' @ model_repository self),
          Invoke (Call ''AutoModelForCausalLM.from_pretrained'' [PStr (model_repository self)]
                    ((''config'', config) # huggingface_kwargs self)),
          Log ERROR ''Encountered CUDA out of memory error while loading the model.'',
          Log ERROR msg]))
    \<and> (py_lower (model_type self) = ''huggingface'' \<longrightarrow>
         load_model rt (self, tr) = (Exit 1, snd (load_huggingface_model rt (self, tr)))
         \<and> (\<forall>e. fst (load_model rt (self, tr)) \<noteq> Raise e)
         \<and> (\<forall>v. fst (load_model rt (self, tr)) \<noteq> Return v))"
proof -
  have a: "load_huggingface_model rt (self, tr) =
      (Exit 1, (self, tr @
         [Log INFO ''Using AutoModelForCausalLM for full models'',
          Invoke (Call ''AutoConfig.from_pretrained'' [PStr (model_repository self)] []),
          Log INFO (''Configuration loaded for '' @ model_repository self),
          Invoke (Call ''AutoTokenizer.from_pretrained'' [PStr (model_repository self)] []),
          Log INFO (''Tokenizer loaded for '' @ model_repository self),
          Invoke (Call ''AutoModelForCausalLM.from_pretrained'' [PStr (model_repository self)]
                    ((''config'', config) # huggingface_kwargs self)),
          Log ERROR ''Encountered CUDA out of memory error while loading the model.'',
          Log ERROR msg]))"
    using cfg tok oom by (simp add: load_huggingface_model_def run_simps)
  have b: "load_model rt (self, tr) = (Exit 1, snd (load_huggingface_model rt (self, tr)))"
    if "py_lower (model_type self) = ''huggingface''"
    using that by (simp add: load_model_run dispatch_def a)
  show ?thesis using a b by simp
qed

theorem C2_out_of_memory_witness:
  "(let self = \<lparr>device_type = ''cuda'', model_type = ''huggingface'',
                 model_repository = ''repo'', model_safetensors = ''weights'',
                 use_triton = False\<rparr>;
        rt = (\<lambda>c. case c of Call name args kw \<Rightarrow>
                if name = ''AutoModelForCausalLM.from_pretrained''
                then Inl (OutOfMemoryError ''CUDA out of memory'') else Inr (PObj 0))
    in load_model rt (self, []) =
        (Exit 1, (self,
         [Log INFO ''Using AutoModelForCausalLM for full models'',
          Invoke (Call ''AutoConfig.from_pretrained'' [PStr ''repo''] []),
          Log INFO ''Configuration loaded for repo'',
          Invoke (Call ''AutoTokenizer.from_pretrained'' [PStr ''repo''] []),
          Log INFO ''Tokenizer loaded for repo'',
          Invoke (Call ''AutoModelForCausalLM.from_pretrained'' [PStr ''repo'']
                    [(''config'', PObj 0),
                     (''low_cpu_mem_usage'', PBool True),
                     (''resume_download'', PBool True),
                     (''trust_remote_code'', PBool False),
                     (''device_map'', PStr ''cuda''),
                     (''torch_dtype'', TorchFloat16)]),
          Log ERROR ''Encountered CUDA out of memory error while loading the model.'',
          Log ERROR ''CUDA out of memory''])))"
proof -
  have l: "py_lower ''huggingface'' = ''huggingface''" by code_simp
  show ?thesis
    using C2_out_of_memory [of
        "\<lambda>c. case c of Call name args kw \<Rightarrow>
                if name = ''AutoModelForCausalLM.from_pretrained''
                then Inl (OutOfMemoryError ''CUDA out of memory'') else Inr (PObj 0)"
        "\<lparr>device_type = ''cuda'', model_type = ''huggingface'',
                 model_repository = ''repo'', model_safetensors = ''weights'',
                 use_triton = False\<rparr>" "PObj 0" "PObj 0" "''CUDA out of memory''" "[]"]
    by (simp add: l huggingface_kwargs_def)
qed

text \<open>
  C3: the normalisation of \<open>model_safetensors\<close> in the quantized strategy (split on the
  dot, drop the last segment, rejoin with dots) turns every value that ends with
  \<open>.safetensors\<close> into the value with exactly that suffix removed, and leaves every other
  value as it is.
\<close>

theorem C3_normalize:
  "(model_safetensors self = p @ ''.safetensors'' \<longrightarrow>
      normalize_safetensors (self, tr) =
        (Return (), (self\<lparr>model_safetensors := p\<rparr>,
                     tr @ [Log INFO (''Stripped '' @ p @ ''. Moving on.'')])))
   \<and> (\<not> endswith (model_safetensors self) ''.safetensors'' \<longrightarrow>
      normalize_safetensors (self, tr) = (Return (), (self, tr)))"
  by (simp add: normalize_result endswith_append drop_last_segment_suffix)

theorem C3_normalize_witness:
  "(let self = \<lparr>device_type = ''cuda'', model_type = ''gptq'', model_repository = ''repo'',
                 model_safetensors = ''weights.safetensors'', use_triton = False\<rparr>;
        bare = \<lparr>device_type = ''cuda'', model_type = ''gptq'', model_repository = ''repo'',
                 model_safetensors = ''weights'', use_triton = False\<rparr>
    in normalize_safetensors (self, []) =
         (Return (), (bare, [Log INFO ''Stripped weights. Moving on.'']))
       \<and> \<not> endswith ''weights'' ''.safetensors''
       \<and> normalize_safetensors (bare, []) = (Return (), (bare, [])))"
  using C3_normalize [of "\<lparr>device_type = ''cuda'', model_type = ''gptq'',
       model_repository = ''repo'', model_safetensors = ''weights.safetensors'',
       use_triton = False\<rparr>" "''weights''" "[]"]
    C3_normalize [of "\<lparr>device_type = ''cuda'', model_type = ''gptq'',
       model_repository = ''repo'', model_safetensors = ''weights'',
       use_triton = False\<rparr>" "''weights''" "[]"]
  by (simp add: endswith_def)

text \<open>
  C4: the constructor returns normally, adds no event, and stores the five fields: for an
  absent or empty argument the process-wide default, for a present non-empty argument the
  argument itself; \<open>device_type\<close> and \<open>model_type\<close> are stored lower-cased in both
  cases (the default too goes through \<open>lower\<close>); \<open>use_triton\<close> is false when absent or
  false and true when true.
\<close>

theorem C4_init:
  "\<exists>self'. ModelLoader_init D dt mt repo st ut (self, tr) = (Return (), (self', tr))
     \<and> (dt = None \<or> dt = Some [] \<longrightarrow> device_type self' = py_lower (DEFAULT_DEVICE_TYPE D))
     \<and> (\<forall>v. dt = Some v \<and> v \<noteq> [] \<longrightarrow> device_type self' = py_lower v)
     \<and> (mt = None \<or> mt = Some [] \<longrightarrow> model_type self' = py_lower (DEFAULT_MODEL_TYPE D))
     \<and> (\<forall>v. mt = Some v \<and> v \<noteq> [] \<longrightarrow> model_type self' = py_lower v)
     \<and> (repo = None \<or> repo = Some [] \<longrightarrow> model_repository self' = DEFAULT_MODEL_REPOSITORY D)
     \<and> (\<forall>v. repo = Some v \<and> v \<noteq> [] \<longrightarrow> model_repository self' = v)
     \<and> (st = None \<or> st = Some [] \<longrightarrow> model_safetensors self' = DEFAULT_MODEL_SAFETENSORS D)
     \<and> (\<forall>v. st = Some v \<and> v \<noteq> [] \<longrightarrow> model_safetensors self' = v)
     \<and> (ut = None \<or> ut = Some False \<longrightarrow> use_triton self' = False)
     \<and> (ut = Some True \<longrightarrow> use_triton self' = True)"
  by (auto simp: init_result or_str_def or_False_def)

theorem C4_init_witness:
  "(let D = \<lparr>DEFAULT_DEVICE_TYPE = ''cuda'', DEFAULT_MODEL_TYPE = ''huggingface'',
              DEFAULT_MODEL_REPOSITORY = ''repo'', DEFAULT_MODEL_SAFETENSORS = ''weights''\<rparr>;
        self0 = \<lparr>device_type = [], model_type = [], model_repository = [],
                  model_safetensors = [], use_triton = False\<rparr>
    in (\<exists>self'. ModelLoader_init D (Some ''CPU'') None (Some []) (Some ''m.safetensors'')
                    (Some True) (self0, []) = (Return (), (self', []))
          \<and> device_type self' = ''cpu''
          \<and> model_type self' = ''huggingface''
          \<and> model_repository self' = ''repo''
          \<and> model_safetensors self' = ''m.safetensors''
          \<and> use_triton self' = True)
       \<and> (\<exists>self'. ModelLoader_init D None (Some ''GPTQ'') (Some ''other'') None
                    None (self0, []) = (Return (), (self', []))
          \<and> device_type self' = ''cuda''
          \<and> model_type self' = ''gptq''
          \<and> model_repository self' = ''other''
          \<and> model_safetensors self' = ''weights''
          \<and> use_triton self' = False))"
proof -
  have l: "py_lower ''CPU'' = ''cpu''" "py_lower ''huggingface'' = ''huggingface''"
    "py_lower ''cuda'' = ''cuda''" "py_lower ''GPTQ'' = ''gptq''"
    by code_simp+
  show ?thesis
    using C4_init [of
        "\<lparr>DEFAULT_DEVICE_TYPE = ''cuda'', DEFAULT_MODEL_TYPE = ''huggingface'',
              DEFAULT_MODEL_REPOSITORY = ''repo'', DEFAULT_MODEL_SAFETENSORS = ''weights''\<rparr>"
        "Some ''CPU''" None "Some []" "Some ''m.safetensors''" "Some True"
        "\<lparr>device_type = [], model_type = [], model_repository = [],
                  model_safetensors = [], use_triton = False\<rparr>" "[]"]
      C4_init [of
        "\<lparr>DEFAULT_DEVICE_TYPE = ''cuda'', DEFAULT_MODEL_TYPE = ''huggingface'',
              DEFAULT_MODEL_REPOSITORY = ''repo'', DEFAULT_MODEL_SAFETENSORS = ''weights''\<rparr>"
        None "Some ''GPTQ''" "Some ''other''" None None
        "\<lparr>device_type = [], model_type = [], model_repository = [],
                  model_safetensors = [], use_triton = False\<rparr>" "[]"]
    by (simp add: l)
qed

text \<open>
  C5: a loader constructed with a \<open>model_type\<close> argument that lower-cases to \<open>ggml\<close>
  makes \<open>load_model\<close> raise \<open>NotImplementedError\<close>, whatever the other arguments, the
  defaults and the runtime are; the object and the event list are untouched, so no
  tokenizer or model loading was attempted.
\<close>

theorem C5_ggml:
  assumes "py_lower mt = ''ggml''"
  shows "\<exists>self. ModelLoader_init D dt (Some mt) repo st ut (self0, tr) = (Return (), (self, tr))
    \<and> load_model rt (self, tr) =
        (Raise (NotImplementedError ''GGML support is in research and development''),
         (self, tr))"
proof (intro exI conjI)
  show "ModelLoader_init D dt (Some mt) repo st ut (self0, tr) =
     (Return (),
      (self0\<lparr>device_type := py_lower (or_str dt (DEFAULT_DEVICE_TYPE D)),
            model_type := py_lower (or_str (Some mt) (DEFAULT_MODEL_TYPE D)),
            model_repository := or_str repo (DEFAULT_MODEL_REPOSITORY D),
            model_safetensors := or_str st (DEFAULT_MODEL_SAFETENSORS D),
            use_triton := or_False ut\<rparr>, tr))"
    by (rule init_result)
next
  from assms have "mt \<noteq> []" by (auto simp: py_lower_def)
  then have "or_str (Some mt) (DEFAULT_MODEL_TYPE D) = mt"
    by (simp add: or_str_def)
  then have "py_lower (py_lower (or_str (Some mt) (DEFAULT_MODEL_TYPE D))) = py_lower mt"
    by (simp only: py_lower_idem)
  with assms show "load_model rt
      (self0\<lparr>device_type := py_lower (or_str dt (DEFAULT_DEVICE_TYPE D)),
            model_type := py_lower (or_str (Some mt) (DEFAULT_MODEL_TYPE D)),
            model_repository := or_str repo (DEFAULT_MODEL_REPOSITORY D),
            model_safetensors := or_str st (DEFAULT_MODEL_SAFETENSORS D),
            use_triton := or_False ut\<rparr>, tr) =
        (Raise (NotImplementedError ''GGML support is in research and development''),
         (self0\<lparr>device_type := py_lower (or_str dt (DEFAULT_DEVICE_TYPE D)),
            model_type := py_lower (or_str (Some mt) (DEFAULT_MODEL_TYPE D)),
            model_repository := or_str repo (DEFAULT_MODEL_REPOSITORY D),
            model_safetensors := or_str st (DEFAULT_MODEL_SAFETENSORS D),
            use_triton := or_False ut\<rparr>, tr))"
    by (intro load_model_ggml) simp
qed

theorem C5_ggml_witness:
  "py_lower ''GgMl'' = ''ggml''
   \<and> (\<exists>self. ModelLoader_init
          \<lparr>DEFAULT_DEVICE_TYPE = ''cuda'', DEFAULT_MODEL_TYPE = ''huggingface'',
           DEFAULT_MODEL_REPOSITORY = ''repo'', DEFAULT_MODEL_SAFETENSORS = ''weights''\<rparr>
          None (Some ''GgMl'') None None None
          (\<lparr>device_type = [], model_type = [], model_repository = [],
            model_safetensors = [], use_triton = False\<rparr>, [])
        = (Return (), (self, []))
      \<and> load_model (\<lambda>c. Inr (PObj 0)) (self, []) =
          (Raise (NotImplementedError ''GGML support is in research and development''),
           (self, [])))"
proof -
  have l: "py_lower ''GgMl'' = ''ggml''" by code_simp
  show ?thesis
    using C5_ggml [OF l, of
          "\<lparr>DEFAULT_DEVICE_TYPE = ''cuda'', DEFAULT_MODEL_TYPE = ''huggingface'',
           DEFAULT_MODEL_REPOSITORY = ''repo'', DEFAULT_MODEL_SAFETENSORS = ''weights''\<rparr>"
          None None None None
          "\<lparr>device_type = [], model_type = [], model_repository = [],
            model_safetensors = [], use_triton = False\<rparr>" "[]" "\<lambda>c. Inr (PObj 0)"] l
    by simp
qed

text \<open>
  C6: in the full-model strategy, once the configuration and the tokenizer have loaded,
  the model loader is called with the repository and with the keyword arguments
  \<open>config\<close> followed by the built dictionary, and with no others. With \<open>device_type\<close>
  \<open>cpu\<close> these hold neither \<open>device_map\<close> nor \<open>torch_dtype\<close>; with any other
  \<open>device_type\<close> they hold \<open>device_map\<close> set to the device type and \<open>torch_dtype\<close> set to
  half precision.
\<close>

theorem C6_huggingface_options:
  assumes cfg: "rt (Call ''AutoConfig.from_pretrained'' [PStr (model_repository self)] []) = Inr config"
    and tok: "rt (Call ''AutoTokenizer.from_pretrained'' [PStr (model_repository self)] []) = Inr tokenizer"
    and opts: "options = (''config'', config) # huggingface_kwargs self"
  shows "(\<forall>args kw.
            Invoke (Call ''AutoModelForCausalLM.from_pretrained'' args kw)
              \<in> set (snd (snd (load_huggingface_model rt (self, []))))
            \<longleftrightarrow> args = [PStr (model_repository self)] \<and> kw = options)
    \<and> (device_type self = ''cpu'' \<longrightarrow>
          map_of options ''device_map'' = None
        \<and> map_of options ''torch_dtype'' = None)
    \<and> (device_type self \<noteq> ''cpu'' \<longrightarrow>
          map_of options ''device_map'' = Some (PStr (device_type self))
        \<and> map_of options ''torch_dtype'' = Some TorchFloat16)"
proof -
  have "Invoke (Call ''AutoModelForCausalLM.from_pretrained'' args kw)
              \<in> set (snd (snd (load_huggingface_model rt (self, []))))
            \<longleftrightarrow> args = [PStr (model_repository self)] \<and> kw = options" for args kw
    using cfg tok opts
    by (auto simp: load_huggingface_model_def run_simps split: sum.splits exn.splits)
  moreover have "device_type self = ''cpu'' \<longrightarrow>
          map_of options ''device_map'' = None
        \<and> map_of options ''torch_dtype'' = None"
    by (simp add: opts huggingface_kwargs_cpu)
  moreover have "device_type self \<noteq> ''cpu'' \<longrightarrow>
          map_of options ''device_map'' = Some (PStr (device_type self))
        \<and> map_of options ''torch_dtype'' = Some TorchFloat16"
    by (simp add: opts huggingface_kwargs_device)
  ultimately show ?thesis by blast
qed

theorem C6_huggingface_options_witness:
  "(let rt = (\<lambda>c. Inr (PObj 0));
        gpu = \<lparr>device_type = ''cuda'', model_type = ''huggingface'',
                model_repository = ''repo'', model_safetensors = ''weights'',
                use_triton = False\<rparr>;
        cpu = \<lparr>device_type = ''cpu'', model_type = ''huggingface'',
                model_repository = ''repo'', model_safetensors = ''weights'',
                use_triton = False\<rparr>;
        gpu_options = [(''config'', PObj 0),
                  (''low_cpu_mem_usage'', PBool True),
                  (''resume_download'', PBool True),
                  (''trust_remote_code'', PBool False),
                  (''device_map'', PStr ''cuda''),
                  (''torch_dtype'', TorchFloat16)];
        cpu_options = [(''config'', PObj 0),
                  (''low_cpu_mem_usage'', PBool True),
                  (''resume_download'', PBool True),
                  (''trust_remote_code'', PBool False)]
    in Invoke (Call ''AutoModelForCausalLM.from_pretrained'' [PStr ''repo''] gpu_options)
         \<in> set (snd (snd (load_huggingface_model rt (gpu, []))))
       \<and> map_of gpu_options ''device_map'' = Some (PStr ''cuda'')
       \<and> map_of gpu_options ''torch_dtype'' = Some TorchFloat16
       \<and> Invoke (Call ''AutoModelForCausalLM.from_pretrained'' [PStr ''repo''] cpu_options)
         \<in> set (snd (snd (load_huggingface_model rt (cpu, []))))
       \<and> map_of cpu_options ''device_map'' = None
       \<and> map_of cpu_options ''torch_dtype'' = None)"
  using C6_huggingface_options [OF _ _ refl, of "\<lambda>c. Inr (PObj 0)"
        "\<lparr>device_type = ''cuda'', model_type = ''huggingface'',
                model_repository = ''repo'', model_safetensors = ''weights'',
                use_triton = False\<rparr>" "PObj 0" "PObj 0"]
    C6_huggingface_options [OF _ _ refl, of "\<lambda>c. Inr (PObj 0)"
        "\<lparr>device_type = ''cpu'', model_type = ''huggingface'',
                model_repository = ''repo'', model_safetensors = ''weights'',
                use_triton = False\<rparr>" "PObj 0" "PObj 0"]
  by (simp add: huggingface_kwargs_def)

text \<open>
  C7: in the quantized strategy, once the tokenizer has loaded, the quantized loader is
  called with the repository and the dictionary built from the object after the
  normalisation step, and with no other arguments. With \<open>device_type\<close> \<open>cpu\<close> the
  dictionary holds none of \<open>use_cuda_fp16\<close>, \<open>use_triton\<close>, \<open>device\<close>; with any other
  \<open>device_type\<close> it holds \<open>use_cuda_fp16\<close> true, \<open>use_triton\<close> as configured, and
  \<open>device\<close> equal to the device type followed by \<open>:0\<close>.
\<close>

theorem C7_gptq_options:
  assumes tok: "rt (Call ''AutoTokenizer.from_pretrained'' [PStr (model_repository self)]
                  [(''use_fast'', PBool True)]) = Inr tokenizer"
    and norm: "self' = fst (snd (normalize_safetensors (self, [])))"
  shows "(\<forall>args kw.
            Invoke (Call ''AutoGPTQForCausalLM.from_quantized'' args kw)
              \<in> set (snd (snd (load_gptq_model rt (self, []))))
            \<longleftrightarrow> args = [PStr (model_repository self)] \<and> kw = gptq_kwargs self')
    \<and> (device_type self = ''cpu'' \<longrightarrow>
          map_of (gptq_kwargs self') ''use_cuda_fp16'' = None
        \<and> map_of (gptq_kwargs self') ''use_triton'' = None
        \<and> map_of (gptq_kwargs self') ''device'' = None)
    \<and> (device_type self \<noteq> ''cpu'' \<longrightarrow>
          map_of (gptq_kwargs self') ''use_cuda_fp16'' = Some (PBool True)
        \<and> map_of (gptq_kwargs self') ''use_triton'' = Some (PBool (use_triton self))
        \<and> map_of (gptq_kwargs self') ''device'' = Some (PStr (device_type self @ '':0'')))"
proof -
  have d: "device_type self' = device_type self" and u: "use_triton self' = use_triton self"
    and r: "model_repository self' = model_repository self"
    by (simp_all add: norm normalize_result)
  have "Invoke (Call ''AutoGPTQForCausalLM.from_quantized'' args kw)
              \<in> set (snd (snd (load_gptq_model rt (self, []))))
            \<longleftrightarrow> args = [PStr (model_repository self)] \<and> kw = gptq_kwargs self'" for args kw
    using tok
    by (auto simp: load_gptq_model_def and_then_def [of normalize_safetensors] normalize_result
        norm run_simps split: sum.splits)
  moreover have "device_type self = ''cpu'' \<longrightarrow>
          map_of (gptq_kwargs self') ''use_cuda_fp16'' = None
        \<and> map_of (gptq_kwargs self') ''use_triton'' = None
        \<and> map_of (gptq_kwargs self') ''device'' = None"
    using d by (simp add: gptq_kwargs_cpu)
  moreover have "device_type self \<noteq> ''cpu'' \<longrightarrow>
          map_of (gptq_kwargs self') ''use_cuda_fp16'' = Some (PBool True)
        \<and> map_of (gptq_kwargs self') ''use_triton'' = Some (PBool (use_triton self))
        \<and> map_of (gptq_kwargs self') ''device'' = Some (PStr (device_type self @ '':0''))"
    using d u by (simp add: gptq_kwargs_device)
  ultimately show ?thesis by blast
qed

theorem C7_gptq_options_witness:
  "(let rt = (\<lambda>c. Inr (PObj 0));
        gpu = \<lparr>device_type = ''cuda'', model_type = ''gptq'',
                model_repository = ''repo'', model_safetensors = ''weights.safetensors'',
                use_triton = True\<rparr>;
        cpu = \<lparr>device_type = ''cpu'', model_type = ''gptq'',
                model_repository = ''repo'', model_safetensors = ''weights'',
                use_triton = True\<rparr>
    in Invoke (Call ''AutoGPTQForCausalLM.from_quantized'' [PStr ''repo'']
                 [(''low_cpu_mem_usage'', PBool True),
                  (''resume_download'', PBool True),
                  (''trust_remote_code'', PBool False),
                  (''use_safetensors'', PBool True),
                  (''device_map'', PStr ''auto''),
                  (''model_safetensors'', PStr ''weights''),
                  (''use_cuda_fp16'', PBool True),
                  (''use_triton'', PBool True),
                  (''device'', PStr ''cuda:0'')])
         \<in> set (snd (snd (load_gptq_model rt (gpu, []))))
       \<and> Invoke (Call ''AutoGPTQForCausalLM.from_quantized'' [PStr ''repo'']
                 [(''low_cpu_mem_usage'', PBool True),
                  (''resume_download'', PBool True),
                  (''trust_remote_code'', PBool False),
                  (''use_safetensors'', PBool True),
                  (''device_map'', PStr ''auto''),
                  (''model_safetensors'', PStr ''weights'')])
         \<in> set (snd (snd (load_gptq_model rt (cpu, [])))))"
proof -
  have n: "drop_last_segment ''weights.safetensors'' = ''weights''"
    using drop_last_segment_suffix [of "''weights''"] by simp
  have e: "endswith ''weights.safetensors'' ''.safetensors''"
    "\<not> endswith ''weights'' ''.safetensors''"
    by (simp_all add: endswith_def)
  show ?thesis
    using C7_gptq_options [OF _ refl, of "\<lambda>c. Inr (PObj 0)"
        "\<lparr>device_type = ''cuda'', model_type = ''gptq'',
                model_repository = ''repo'', model_safetensors = ''weights.safetensors'',
                use_triton = True\<rparr>" "PObj 0"]
      C7_gptq_options [OF _ refl, of "\<lambda>c. Inr (PObj 0)"
        "\<lparr>device_type = ''cpu'', model_type = ''gptq'',
                model_repository = ''repo'', model_safetensors = ''weights'',
                use_triton = True\<rparr>" "PObj 0"]
    by (simp add: normalize_result gptq_kwargs_def n e)
qed

text \<open>
  C8: whenever \<open>load_model\<close> returns a value, one of the three strategies has returned a
  model and a tokenizer, the generation configuration was fetched for the repository, the
  pipeline was built for the task \<open>text-generation\<close> from exactly that model, tokenizer and
  generation configuration with \<open>max_length\<close> 512, \<open>temperature\<close> 0, \<open>top_p\<close> 0.95 and
  \<open>repetition_penalty\<close> 1.15, and the returned value is the \<open>HuggingFacePipeline\<close> wrapper
  of that pipeline.
\<close>

theorem C8_pipeline:
  assumes ok: "load_model rt (self, tr) = (Return local_llm, (self', tr'))"
  shows "\<exists>model tokenizer generation_config pipe s1.
      (py_lower (model_type self) = ''huggingface''
         \<and> load_huggingface_model rt (self, tr) = (Return (model, tokenizer), s1)
       \<or> py_lower (model_type self) = ''huggingface-llama''
         \<and> load_huggingface_llama_model rt (self, tr) = (Return (model, tokenizer), s1)
       \<or> py_lower (model_type self) = ''gptq''
         \<and> load_gptq_model rt (self, tr) = (Return (model, tokenizer), s1))
    \<and> rt (Call ''GenerationConfig.from_pretrained'' [PStr (model_repository self)] [])
        = Inr generation_config
    \<and> rt (Call ''pipeline'' [PStr ''text-generation'']
           [(''model'', model),
            (''tokenizer'', tokenizer),
            (''max_length'', PInt 512),
            (''temperature'', PInt 0),
            (''top_p'', PFloat 95 2),
            (''repetition_penalty'', PFloat 115 2),
            (''generation_config'', generation_config)]) = Inr pipe
    \<and> rt (Call ''HuggingFacePipeline'' [] [(''pipeline'', pipe)]) = Inr local_llm
    \<and> self' = fst s1
    \<and> tr' = snd s1 @
        [Invoke (Call ''GenerationConfig.from_pretrained'' [PStr (model_repository self)] []),
         Invoke (Call ''pipeline'' [PStr ''text-generation'']
           [(''model'', model),
            (''tokenizer'', tokenizer),
            (''max_length'', PInt 512),
            (''temperature'', PInt 0),
            (''top_p'', PFloat 95 2),
            (''repetition_penalty'', PFloat 115 2),
            (''generation_config'', generation_config)]),
         Invoke (Call ''HuggingFacePipeline'' [] [(''pipeline'', pipe)]),
         Log INFO ''Local LLM Loaded'']"
proof -
  obtain model tokenizer s1 t1 where
    d: "dispatch rt self (self, tr) = (Return (model, tokenizer), (s1, t1))"
    using ok by (auto simp: load_model_run split: prod.splits outcome.splits)
  have "s1 = fst (snd (dispatch rt self (self, tr)))" by (simp add: d)
  then have r: "model_repository s1 = model_repository self"
    by (simp add: dispatch_self)
  obtain generation_config where
    g: "rt (Call ''GenerationConfig.from_pretrained'' [PStr (model_repository self)] [])
          = Inr generation_config"
    using ok d r by (auto simp: load_model_run split: sum.splits)
  obtain pipe where
    p: "rt (Call ''pipeline'' [PStr ''text-generation'']
           [(''model'', model),
            (''tokenizer'', tokenizer),
            (''max_length'', PInt 512),
            (''temperature'', PInt 0),
            (''top_p'', PFloat 95 2),
            (''repetition_penalty'', PFloat 115 2),
            (''generation_config'', generation_config)]) = Inr pipe"
    using ok d r g
    by (auto simp: load_model_run create_pipeline_def run_simps split: sum.splits)
  have f: "rt (Call ''HuggingFacePipeline'' [] [(''pipeline'', pipe)]) = Inr local_llm
    \<and> self' = s1
    \<and> tr' = t1 @
        [Invoke (Call ''GenerationConfig.from_pretrained'' [PStr (model_repository self)] []),
         Invoke (Call ''pipeline'' [PStr ''text-generation'']
           [(''model'', model),
            (''tokenizer'', tokenizer),
            (''max_length'', PInt 512),
            (''temperature'', PInt 0),
            (''top_p'', PFloat 95 2),
            (''repetition_penalty'', PFloat 115 2),
            (''generation_config'', generation_config)]),
         Invoke (Call ''HuggingFacePipeline'' [] [(''pipeline'', pipe)]),
         Log INFO ''Local LLM Loaded'']"
    using ok d r g p
    by (auto simp: load_model_run create_pipeline_def run_simps split: sum.splits)
  have "py_lower (model_type self) = ''huggingface''
         \<and> load_huggingface_model rt (self, tr) = (Return (model, tokenizer), (s1, t1))
       \<or> py_lower (model_type self) = ''huggingface-llama''
         \<and> load_huggingface_llama_model rt (self, tr) = (Return (model, tokenizer), (s1, t1))
       \<or> py_lower (model_type self) = ''gptq''
         \<and> load_gptq_model rt (self, tr) = (Return (model, tokenizer), (s1, t1))"
    using d by (auto simp: dispatch_def raise_def split: if_splits)
  with g p f show ?thesis
    by (intro exI [of _ model] exI [of _ tokenizer] exI [of _ generation_config]
        exI [of _ pipe] exI [of _ "(s1, t1)"]) simp
qed

theorem C8_pipeline_witness:
  "(let rt = (\<lambda>c. case c of Call name args kw \<Rightarrow>
                if name = ''AutoConfig.from_pretrained'' then Inr (PObj 1)
                else if name = ''AutoTokenizer.from_pretrained'' then Inr (PObj 2)
                else if name = ''AutoModelForCausalLM.from_pretrained'' then Inr (PObj 3)
                else if name = ''GenerationConfig.from_pretrained'' then Inr (PObj 4)
                else if name = ''pipeline'' then Inr (PObj 5)
                else if name = ''HuggingFacePipeline'' then Inr (PObj 6)
                else Inr PNone);
        self = \<lparr>device_type = ''cpu'', model_type = ''huggingface'',
                 model_repository = ''repo'', model_safetensors = ''weights'',
                 use_triton = False\<rparr>
    in load_model rt (self, []) =
        (Return (PObj 6), (self,
         [Log INFO ''Using AutoModelForCausalLM for full models'',
          Invoke (Call ''AutoConfig.from_pretrained'' [PStr ''repo''] []),
          Log INFO ''Configuration loaded for repo'',
          Invoke (Call ''AutoTokenizer.from_pretrained'' [PStr ''repo''] []),
          Log INFO ''Tokenizer loaded for repo'',
          Invoke (Call ''AutoModelForCausalLM.from_pretrained'' [PStr ''repo'']
                    [(''config'', PObj 1),
                     (''low_cpu_mem_usage'', PBool True),
                     (''resume_download'', PBool True),
                     (''trust_remote_code'', PBool False)]),
          Log INFO ''Model loaded for repo'',
          Invoke (Call ''tie_weights'' [PObj 3] []),
          Log WARNING ''Model Weights Tied: Effectiveness depends on the specific type of model.'',
          Invoke (Call ''GenerationConfig.from_pretrained'' [PStr ''repo''] []),
          Invoke (Call ''pipeline'' [PStr ''text-generation'']
             [(''model'', PObj 3),
              (''tokenizer'', PObj 2),
              (''max_length'', PInt 512),
              (''temperature'', PInt 0),
              (''top_p'', PFloat 95 2),
              (''repetition_penalty'', PFloat 115 2),
              (''generation_config'', PObj 4)]),
          Invoke (Call ''HuggingFacePipeline'' [] [(''pipeline'', PObj 5)]),
          Log INFO ''Local LLM Loaded'']))
       \<and> (\<exists>model tokenizer generation_config pipe.
             rt (Call ''pipeline'' [PStr ''text-generation'']
               [(''model'', model),
                (''tokenizer'', tokenizer),
                (''max_length'', PInt 512),
                (''temperature'', PInt 0),
                (''top_p'', PFloat 95 2),
                (''repetition_penalty'', PFloat 115 2),
                (''generation_config'', generation_config)]) = Inr pipe
           \<and> rt (Call ''HuggingFacePipeline'' [] [(''pipeline'', pipe)]) = Inr (PObj 6)))"
proof -
  let ?rt = "\<lambda>c. case c of Call name args kw \<Rightarrow>
                if name = ''AutoConfig.from_pretrained'' then Inr (PObj 1)
                else if name = ''AutoTokenizer.from_pretrained'' then Inr (PObj 2)
                else if name = ''AutoModelForCausalLM.from_pretrained'' then Inr (PObj 3)
                else if name = ''GenerationConfig.from_pretrained'' then Inr (PObj 4)
                else if name = ''pipeline'' then Inr (PObj 5)
                else if name = ''HuggingFacePipeline'' then Inr (PObj 6)
                else (Inr PNone :: exn + pyval)"
  let ?self = "\<lparr>device_type = ''cpu'', model_type = ''huggingface'',
                 model_repository = ''repo'', model_safetensors = ''weights'',
                 use_triton = False\<rparr>"
  let ?tr = "[Log INFO ''Using AutoModelForCausalLM for full models'',
          Invoke (Call ''AutoConfig.from_pretrained'' [PStr ''repo''] []),
          Log INFO ''Configuration loaded for repo'',
          Invoke (Call ''AutoTokenizer.from_pretrained'' [PStr ''repo''] []),
          Log INFO ''Tokenizer loaded for repo'',
          Invoke (Call ''AutoModelForCausalLM.from_pretrained'' [PStr ''repo'']
                    [(''config'', PObj 1),
                     (''low_cpu_mem_usage'', PBool True),
                     (''resume_download'', PBool True),
                     (''trust_remote_code'', PBool False)]),
          Log INFO ''Model loaded for repo'',
          Invoke (Call ''tie_weights'' [PObj 3] []),
          Log WARNING ''Model Weights Tied: Effectiveness depends on the specific type of model.'',
          Invoke (Call ''GenerationConfig.from_pretrained'' [PStr ''repo''] []),
          Invoke (Call ''pipeline'' [PStr ''text-generation'']
             [(''model'', PObj 3),
              (''tokenizer'', PObj 2),
              (''max_length'', PInt 512),
              (''temperature'', PInt 0),
              (''top_p'', PFloat 95 2),
              (''repetition_penalty'', PFloat 115 2),
              (''generation_config'', PObj 4)]),
          Invoke (Call ''HuggingFacePipeline'' [] [(''pipeline'', PObj 5)]),
          Log INFO ''Local LLM Loaded'']"
  have l: "py_lower ''huggingface'' = ''huggingface''" by code_simp
  have ok: "load_model ?rt (?self, []) = (Return (PObj 6), (?self, ?tr))"
    by (simp add: load_model_def dispatch_def l load_huggingface_model_def
        huggingface_kwargs_def create_pipeline_def run_simps)
  from C8_pipeline [OF ok] have
    "\<exists>model tokenizer generation_config pipe.
             ?rt (Call ''pipeline'' [PStr ''text-generation'']
               [(''model'', model),
                (''tokenizer'', tokenizer),
                (''max_length'', PInt 512),
                (''temperature'', PInt 0),
                (''top_p'', PFloat 95 2),
                (''repetition_penalty'', PFloat 115 2),
                (''generation_config'', generation_config)]) = Inr pipe
           \<and> ?rt (Call ''HuggingFacePipeline'' [] [(''pipeline'', pipe)]) = Inr (PObj 6)"
    by blast
  with ok show ?thesis
    unfolding Let_def by (intro conjI)
qed

text \<open>
  C9: the full-model strategy, the Llama strategy, \<open>load_ggml_model\<close> and
  \<open>create_pipeline\<close> leave the object as it was, and so does \<open>load_model\<close> when the
  model type is not \<open>gptq\<close>. The quantized strategy, and \<open>load_model\<close> in every case,
  keep \<open>device_type\<close>, \<open>model_type\<close>, \<open>model_repository\<close> and \<open>use_triton\<close>;
  \<open>model_safetensors\<close> is either kept or loses its trailing \<open>.safetensors\<close>, which the
  quantized strategy removes whenever it is there.
\<close>

theorem C9_frame:
  "fst (snd (load_huggingface_model rt (self, tr))) = self
   \<and> fst (snd (load_huggingface_llama_model rt (self, tr))) = self
   \<and> fst (snd (load_ggml_model (self, tr))) = self
   \<and> fst (snd (create_pipeline rt model tokenizer generation_config (self, tr))) = self
   \<and> (py_lower (model_type self) \<noteq> ''gptq'' \<longrightarrow> fst (snd (load_model rt (self, tr))) = self)
   \<and> (\<forall>self'. self' = fst (snd (load_gptq_model rt (self, tr)))
                \<or> self' = fst (snd (load_model rt (self, tr))) \<longrightarrow>
          device_type self' = device_type self
        \<and> model_type self' = model_type self
        \<and> model_repository self' = model_repository self
        \<and> use_triton self' = use_triton self
        \<and> (model_safetensors self' = model_safetensors self
           \<or> (\<exists>p. model_safetensors self = p @ ''.safetensors''
                  \<and> model_safetensors self' = p)))
   \<and> (\<forall>p. model_safetensors self = p @ ''.safetensors'' \<longrightarrow>
          model_safetensors (fst (snd (load_gptq_model rt (self, tr)))) = p)
   \<and> (\<not> endswith (model_safetensors self) ''.safetensors'' \<longrightarrow>
          fst (snd (load_gptq_model rt (self, tr))) = self)"
proof -
  have g: "device_type self' = device_type self
        \<and> model_type self' = model_type self
        \<and> model_repository self' = model_repository self
        \<and> use_triton self' = use_triton self
        \<and> (model_safetensors self' = model_safetensors self
           \<or> (\<exists>p. model_safetensors self = p @ ''.safetensors''
                  \<and> model_safetensors self' = p))"
    if "self' = fst (snd (load_gptq_model rt (self, tr)))
        \<or> self' = fst (snd (load_model rt (self, tr)))" for self'
  proof (cases "self' = self")
    case True
    then show ?thesis by simp
  next
    case False
    with that have e: "endswith (model_safetensors self) ''.safetensors''"
      and s: "self' = self\<lparr>model_safetensors := drop_last_segment (model_safetensors self)\<rparr>"
      by (auto simp: gptq_self load_model_self dispatch_self split: if_splits)
    from e obtain p where p: "model_safetensors self = p @ ''.safetensors''"
      unfolding endswith_iff by blast
    then have "model_safetensors self' = p"
      by (simp add: s drop_last_segment_suffix)
    with p s show ?thesis by simp
  qed
  have h: "model_safetensors (fst (snd (load_gptq_model rt (self, tr)))) = p"
    if "model_safetensors self = p @ ''.safetensors''" for p
    using that by (simp add: gptq_self endswith_append drop_last_segment_suffix)
  have k: "py_lower (model_type self) \<noteq> ''gptq'' \<longrightarrow> fst (snd (load_model rt (self, tr))) = self"
    by (simp add: load_model_self dispatch_self)
  have m: "\<not> endswith (model_safetensors self) ''.safetensors'' \<longrightarrow>
          fst (snd (load_gptq_model rt (self, tr))) = self"
    by (simp add: gptq_self)
  have a: "fst (snd (load_huggingface_model rt (self, tr))) = self"
    by (rule huggingface_self)
  have b: "fst (snd (load_huggingface_llama_model rt (self, tr))) = self"
    by (rule llama_self)
  have c: "fst (snd (load_ggml_model (self, tr))) = self"
    by (simp add: load_ggml_model_def ret_apply)
  have d: "fst (snd (create_pipeline rt model tokenizer generation_config (self, tr))) = self"
    by (rule create_pipeline_self)
  show ?thesis
    using a b c d k g h m by blast
qed

theorem C9_frame_witness:
  "(let rt = (\<lambda>c. Inr (PObj 0));
        q = \<lparr>device_type = ''cuda'', model_type = ''gptq'',
              model_repository = ''repo'', model_safetensors = ''weights.safetensors'',
              use_triton = True\<rparr>;
        h = \<lparr>device_type = ''cuda'', model_type = ''huggingface'',
              model_repository = ''repo'', model_safetensors = ''weights.safetensors'',
              use_triton = True\<rparr>
    in fst (snd (load_gptq_model rt (q, []))) = q\<lparr>model_safetensors := ''weights''\<rparr>
       \<and> py_lower (model_type h) \<noteq> ''gptq''
       \<and> fst (snd (load_model rt (h, []))) = h)"
proof -
  have l: "py_lower ''huggingface'' = ''huggingface''" "py_lower ''gptq'' = ''gptq''"
    by code_simp+
  let ?rt = "\<lambda>c::call. (Inr (PObj 0) :: exn + pyval)"
  let ?q = "\<lparr>device_type = ''cuda'', model_type = ''gptq'',
              model_repository = ''repo'', model_safetensors = ''weights.safetensors'',
              use_triton = True\<rparr>"
  let ?h = "\<lparr>device_type = ''cuda'', model_type = ''huggingface'',
              model_repository = ''repo'', model_safetensors = ''weights.safetensors'',
              use_triton = True\<rparr>"
  have q: "model_safetensors ?q = ''weights'' @ ''.safetensors''" by simp
  have a: "fst (snd (load_gptq_model ?rt (?q, []))) = ?q\<lparr>model_safetensors := ''weights''\<rparr>"
    using C9_frame [of ?rt ?q "[]" PNone PNone PNone] q
    by (intro ModelLoader.equality) (simp_all del: append.simps)
  have b: "fst (snd (load_model ?rt (?h, []))) = ?h"
    using C9_frame [of ?rt ?h "[]" PNone PNone PNone] by (simp add: l)
  show ?thesis
    using a b by (simp add: l)
qed

text \<open>
  C10: \<open>load_ggml_model\<close> returns \<open>None\<close> and raises nothing, whatever the object is;
  for the model type \<open>ggml\<close> the \<open>NotImplementedError\<close> comes from the dispatch of
  \<open>load_model\<close>, which raises at once with no event recorded.
\<close>

theorem C10_ggml_method:
  "load_ggml_model (self, tr) = (Return PNone, (self, tr))
   \<and> (py_lower (model_type self) = ''ggml'' \<longrightarrow>
        load_model rt (self, tr) =
          (Raise (NotImplementedError ''GGML support is in research and development''),
           (self, tr)))"
  by (simp add: load_ggml_model_def load_model_def dispatch_def run_simps)

theorem C10_ggml_method_witness:
  "(let self = \<lparr>device_type = ''cpu'', model_type = ''ggml'',
                 model_repository = ''repo'', model_safetensors = ''weights'',
                 use_triton = False\<rparr>
    in load_ggml_model (self, []) = (Return PNone, (self, []))
       \<and> py_lower (model_type self) = ''ggml''
       \<and> load_model (\<lambda>c. Inr (PObj 0)) (self, []) =
           (Raise (NotImplementedError ''GGML support is in research and development''),
            (self, [])))"
proof -
  have l: "py_lower ''ggml'' = ''ggml''" by code_simp
  show ?thesis
    using C10_ggml_method [of "\<lparr>device_type = ''cpu'', model_type = ''ggml'',
                 model_repository = ''repo'', model_safetensors = ''weights'',
                 use_triton = False\<rparr>" "[]" "\<lambda>c. Inr (PObj 0)"]
    by (simp add: l)
qed

end
